theory Spec2Isabelle
  imports Main "HOL-Library.Sublist"
begin

section \<open>Data model of \<open>src/index.ts\<close>\<close>

text \<open>
  An optional property of a TypeScript interface (\<open>title?: string\<close>) is an
  \<open>option\<close>: \<open>None\<close> is the absent (\<open>undefined\<close>) property, which
  \<open>JSON.stringify\<close> leaves out of the wire text, and \<open>Some v\<close> is the property
  set to \<open>v\<close>, also when \<open>v\<close> is empty.  JavaScript numbers are modelled as
  whole numbers.
\<close>

record DiscordEmbedField =
  field_name :: string
  field_value :: string
  field_inline :: "bool option"

record EmbedFooter =
  footer_text :: string
  icon_url :: "string option"

record EmbedMedia =
  media_url :: string

record DiscordEmbed =
  title :: "string option"
  description :: "string option"
  url :: "string option"
  timestamp :: "string option"
  color :: "int option"
  footer :: "EmbedFooter option"
  embed_image :: "EmbedMedia option"
  thumbnail :: "EmbedMedia option"
  embed_fields :: "DiscordEmbedField list option"

record DiscordWebhookPayload =
  content :: "string option"
  payload_username :: "string option"
  avatar_url :: "string option"
  embeds :: "DiscordEmbed list option"

datatype DiscordStatusColor = success | warning | error | info

record DiscordWebhookOptions =
  opt_webhookUrl :: string
  opt_username :: "string option"
  opt_avatarUrl :: "string option"
  opt_timeout :: "int option"

text \<open>The private members of the class \<open>DiscordWebhook\<close>.\<close>

record DiscordWebhook =
  webhookUrl :: string
  username :: "string option"
  avatarUrl :: "string option"
  timeout :: int

section \<open>Thrown values\<close>

text \<open>
  Whatever JavaScript throws is either an \<open>Error\<close> object, of which the code
  reads \<open>name\<close> and \<open>message\<close>, or some other value.  Every \<open>throw\<close> of the
  source is \<open>new Error(message)\<close>, whose name is \<open>Error\<close>.
\<close>

datatype thrown = Error (err_name: string) (message: string) | NonError

definition new_Error :: "string \<Rightarrow> thrown" where
  "new_Error m = Error ''Error'' m"

text \<open>Truthiness of an optional string: \<open>undefined\<close> and \<open>""\<close> are falsy.\<close>

fun truthy :: "string option \<Rightarrow> bool" where
  "truthy None = False"
| "truthy (Some s) = (s \<noteq> [])"

section \<open>Numbers inside template literals\<close>

text \<open>
  A whole number inside a template literal is written in decimal.  \<open>digit\<close>
  is only applied to numbers below ten.
\<close>

definition digit :: "nat \<Rightarrow> char" where
  "digit d = ''0123456789'' ! d"

fun show_nat :: "nat \<Rightarrow> string" where
  "show_nat n = (if n < 10 then [digit n] else show_nat (n div 10) @ [digit (n mod 10)])"

declare show_nat.simps [simp del]

definition show_int :: "int \<Rightarrow> string" where
  "show_int i = (if i < 0 then CHR ''-'' # show_nat (nat (- i)) else show_nat (nat i))"

section \<open>The class \<open>DiscordWebhook\<close>: static data and constructor\<close>

fun STATUS_COLORS :: "DiscordStatusColor \<Rightarrow> int" where
  "STATUS_COLORS success = 0x57F287"
| "STATUS_COLORS warning = 0xFEE75C"
| "STATUS_COLORS error = 0xED4245"
| "STATUS_COLORS info = 0x5865F2"

definition WEBHOOK_PREFIX :: string where
  "WEBHOOK_PREFIX = ''https://discord.com/api/webhooks/''"

text \<open>
  \<open>options.timeout || 10000\<close>: an absent timeout and the falsy number \<open>0\<close>
  both give the default.
\<close>

fun timeout_or_default :: "int option \<Rightarrow> int" where
  "timeout_or_default None = 10000"
| "timeout_or_default (Some t) = (if t = 0 then 10000 else t)"

definition new_DiscordWebhook :: "DiscordWebhookOptions \<Rightarrow> thrown + DiscordWebhook" where
  "new_DiscordWebhook options =
     (if opt_webhookUrl options = [] \<or> \<not> prefix WEBHOOK_PREFIX (opt_webhookUrl options)
      then Inl (new_Error ''Invalid webhook URL. Must be a Discord webhook URL.'')
      else Inr \<lparr> webhookUrl = opt_webhookUrl options,
                 username = opt_username options,
                 avatarUrl = opt_avatarUrl options,
                 timeout = timeout_or_default (opt_timeout options) \<rparr>)"

section \<open>The class \<open>EmbedBuilder\<close>\<close>

text \<open>
  The builder's only member is the embed under construction, so a builder
  state is a \<open>DiscordEmbed\<close>; each mutator returns the updated state.
\<close>

definition new_EmbedBuilder :: DiscordEmbed where
  "new_EmbedBuilder =
     \<lparr> title = None, description = None, url = None, timestamp = None, color = None,
       footer = None, embed_image = None, thumbnail = None, embed_fields = None \<rparr>"

definition setTitle :: "string \<Rightarrow> DiscordEmbed \<Rightarrow> DiscordEmbed" where
  "setTitle t b = b\<lparr>title := Some t\<rparr>"

definition setDescription :: "string \<Rightarrow> DiscordEmbed \<Rightarrow> DiscordEmbed" where
  "setDescription d b = b\<lparr>description := Some d\<rparr>"

definition setColor :: "int \<Rightarrow> DiscordEmbed \<Rightarrow> DiscordEmbed" where
  "setColor c b = b\<lparr>color := Some c\<rparr>"

definition setStatusColor :: "DiscordStatusColor \<Rightarrow> DiscordEmbed \<Rightarrow> DiscordEmbed" where
  "setStatusColor status b = b\<lparr>color := Some (STATUS_COLORS status)\<rparr>"

definition setUrl :: "string \<Rightarrow> DiscordEmbed \<Rightarrow> DiscordEmbed" where
  "setUrl u b = b\<lparr>url := Some u\<rparr>"

text \<open>\<open>now\<close> is what \<open>new Date().toISOString()\<close> returns at the call.\<close>

definition setTimestamp :: "string \<Rightarrow> DiscordEmbed \<Rightarrow> DiscordEmbed" where
  "setTimestamp now b = b\<lparr>timestamp := Some now\<rparr>"

definition setFooter :: "string \<Rightarrow> string option \<Rightarrow> DiscordEmbed \<Rightarrow> DiscordEmbed" where
  "setFooter t iconUrl b = b\<lparr>footer := Some \<lparr> footer_text = t, icon_url = iconUrl \<rparr>\<rparr>"

definition setImage :: "string \<Rightarrow> DiscordEmbed \<Rightarrow> DiscordEmbed" where
  "setImage u b = b\<lparr>embed_image := Some \<lparr> media_url = u \<rparr>\<rparr>"

definition setThumbnail :: "string \<Rightarrow> DiscordEmbed \<Rightarrow> DiscordEmbed" where
  "setThumbnail u b = b\<lparr>thumbnail := Some \<lparr> media_url = u \<rparr>\<rparr>"

text \<open>
  \<open>if (!this.embed.fields) this.embed.fields = []\<close>: an array, also the empty
  one, is truthy, so only the absent list is initialised.
\<close>

fun init_fields :: "DiscordEmbedField list option \<Rightarrow> DiscordEmbedField list" where
  "init_fields None = []"
| "init_fields (Some fs) = fs"

text \<open>The default parameter \<open>inline = false\<close> replaces an omitted argument.\<close>

fun inline_or_default :: "bool option \<Rightarrow> bool" where
  "inline_or_default None = False"
| "inline_or_default (Some i) = i"

definition addField :: "string \<Rightarrow> string \<Rightarrow> bool option \<Rightarrow> DiscordEmbed \<Rightarrow> DiscordEmbed" where
  "addField n v inline b =
     b\<lparr>embed_fields := Some (init_fields (embed_fields b) @
          [\<lparr> field_name = n, field_value = v,
             field_inline = Some (inline_or_default inline) \<rparr>])\<rparr>"

definition addFields :: "DiscordEmbedField list \<Rightarrow> DiscordEmbed \<Rightarrow> DiscordEmbed" where
  "addFields fs b = b\<lparr>embed_fields := Some (init_fields (embed_fields b) @ fs)\<rparr>"

definition build :: "DiscordEmbed \<Rightarrow> DiscordEmbed" where
  "build b = b"

section \<open>Dispatch\<close>

text \<open>
  What \<open>_execute\<close> hands to \<open>fetch\<close>.  The body is kept as the payload value
  that \<open>JSON.stringify\<close> serialises; \<open>abort_after\<close> is the delay of the timer
  that aborts the request through the \<open>AbortController\<close>'s signal.
\<close>

record request =
  req_url :: string
  req_method :: string
  req_headers :: "(string \<times> string) list"
  req_body :: DiscordWebhookPayload
  abort_after :: int

text \<open>
  The response the code looks at: \<open>status\<close>, \<open>statusText\<close> and the outcome
  of \<open>await response.text()\<close>, which delivers the body text or throws.
\<close>

record response =
  status :: nat
  statusText :: string
  text_result :: "thrown + string"

text \<open>
  Modelled from the spec: the getter \<open>response.ok\<close> belongs to the HTTP library
  (\<open>node-fetch\<close>), which is not among the sources; the spec describes the
  statuses it accepts as the range 200 to 299.
\<close>

definition ok :: "response \<Rightarrow> bool" where
  "ok r = (200 \<le> status r \<and> status r \<le> 299)"

text \<open>
  \<open>await fetch(...)\<close> either resolves with a response or throws.  An aborted
  request throws an \<open>Error\<close> object whose name is \<open>AbortError\<close>.
\<close>

datatype fetch_outcome = Resolved response | Rejected thrown

text \<open>
  The surroundings of a call: how the network answers a request, and the
  text \<open>new Date().toISOString()\<close> returns.
\<close>

record env =
  fetch :: "request \<Rightarrow> fetch_outcome"
  now :: string

definition request_of :: "DiscordWebhook \<Rightarrow> DiscordWebhookPayload \<Rightarrow> request" where
  "request_of this payload =
     \<lparr> req_url = webhookUrl this, req_method = ''POST'',
       req_headers = [(''Content-Type'', ''application/json'')],
       req_body = payload, abort_after = timeout this \<rparr>"

text \<open>The body of the \<open>try\<close> block, after \<open>fetch\<close> has settled.\<close>

fun try_block :: "fetch_outcome \<Rightarrow> thrown + unit" where
  "try_block (Rejected e) = Inl e"
| "try_block (Resolved r) =
     (if \<not> ok r then
        (case text_result r of
           Inl e \<Rightarrow> Inl e
         | Inr errorText \<Rightarrow>
             Inl (new_Error (''Discord API error: '' @ show_nat (status r) @ '' '' @
                    statusText r @ '' - '' @ errorText)))
      else Inr ())"

text \<open>The \<open>catch\<close> block: every thrown value is replaced by a new \<open>Error\<close>.\<close>

fun catch_block :: "DiscordWebhook \<Rightarrow> thrown \<Rightarrow> thrown" where
  "catch_block this (Error n m) =
     (if n = ''AbortError''
      then new_Error (''Failed to send webhook: Request timeout after '' @
             show_int (timeout this) @ ''ms'')
      else new_Error (''Failed to send webhook: '' @ m))"
| "catch_block this NonError = new_Error ''Failed to send webhook: Unknown error''"

text \<open>
  \<open>_execute\<close>.  The last argument is the list of requests handed to \<open>fetch\<close>
  so far; the call appends its own request and returns the list with the
  outcome (\<open>Inl\<close> is the thrown error, \<open>Inr ()\<close> the normal return).
\<close>

definition execute ::
  "env \<Rightarrow> DiscordWebhook \<Rightarrow> DiscordWebhookPayload \<Rightarrow> request list
     \<Rightarrow> (thrown + unit) \<times> request list" where
  "execute e this payload sent =
     (let req = request_of this payload in
        (case try_block (fetch e req) of
           Inl err \<Rightarrow> Inl (catch_block this err)
         | Inr u \<Rightarrow> Inr u,
         sent @ [req]))"

definition send ::
  "env \<Rightarrow> DiscordWebhook \<Rightarrow> string \<Rightarrow> DiscordEmbed list option \<Rightarrow> request list
     \<Rightarrow> (thrown + unit) \<times> request list" where
  "send e this c es sent =
     execute e this
       \<lparr> content = Some c, payload_username = username this,
         avatar_url = avatarUrl this, embeds = es \<rparr> sent"

text \<open>
  The embed \<open>sendStatus\<close> assembles: three properties set at once, three
  more under the source's \<open>if\<close> statements.
\<close>

definition status_embed ::
  "string \<Rightarrow> DiscordStatusColor \<Rightarrow> string \<Rightarrow> string option
     \<Rightarrow> DiscordEmbedField list option \<Rightarrow> string option \<Rightarrow> DiscordEmbed" where
  "status_embed now_iso st t d fs imageUrl =
     (let embed0 = new_EmbedBuilder
            \<lparr> title := Some t, color := Some (STATUS_COLORS st), timestamp := Some now_iso \<rparr>;
          embed1 = (if truthy d then embed0\<lparr>description := d\<rparr> else embed0);
          embed2 = (case fs of
                      None \<Rightarrow> embed1
                    | Some l \<Rightarrow> if length l > 0 then embed1\<lparr>embed_fields := Some l\<rparr> else embed1);
          embed3 = (case imageUrl of
                      None \<Rightarrow> embed2
                    | Some u \<Rightarrow> if u \<noteq> [] then embed2\<lparr>embed_image := Some \<lparr>media_url = u\<rparr>\<rparr>
                               else embed2)
      in embed3)"

definition sendStatus ::
  "env \<Rightarrow> DiscordWebhook \<Rightarrow> DiscordStatusColor \<Rightarrow> string \<Rightarrow> string option
     \<Rightarrow> DiscordEmbedField list option \<Rightarrow> string option \<Rightarrow> request list
     \<Rightarrow> (thrown + unit) \<times> request list" where
  "sendStatus e this st t d fs imageUrl sent =
     execute e this
       \<lparr> content = None, payload_username = username this,
         avatar_url = avatarUrl this,
         embeds = Some [status_embed (now e) st t d fs imageUrl] \<rparr> sent"

definition createEmbed :: "DiscordWebhook \<Rightarrow> DiscordEmbed" where
  "createEmbed this = new_EmbedBuilder"

definition sendEmbeds ::
  "env \<Rightarrow> DiscordWebhook \<Rightarrow> DiscordEmbed list \<Rightarrow> request list
     \<Rightarrow> (thrown + unit) \<times> request list" where
  "sendEmbeds e this es sent =
     (if length es = 0 then (Inl (new_Error ''At least one embed is required''), sent)
      else if length es > 10 then (Inl (new_Error ''Maximum 10 embeds allowed per message''), sent)
      else execute e this
             \<lparr> content = None, payload_username = username this,
               avatar_url = avatarUrl this, embeds = Some es \<rparr> sent)"

section \<open>The error kinds of the specification\<close>

text \<open>
  The source throws plain \<open>Error\<close> objects; the kinds below name them by the
  place that throws and the message it builds.
\<close>

definition ConfigurationError :: thrown where
  "ConfigurationError = new_Error ''Invalid webhook URL. Must be a Discord webhook URL.''"

definition ValidationError :: "thrown \<Rightarrow> bool" where
  "ValidationError err =
     (err = new_Error ''At least one embed is required'' \<or>
      err = new_Error ''Maximum 10 embeds allowed per message'')"

definition RemoteError :: "nat \<Rightarrow> string \<Rightarrow> string \<Rightarrow> thrown" where
  "RemoteError code reason body =
     new_Error (''Failed to send webhook: Discord API error: '' @ show_nat code @ '' '' @
                reason @ '' - '' @ body)"

definition TimeoutError :: "int \<Rightarrow> thrown" where
  "TimeoutError ms =
     new_Error (''Failed to send webhook: Request timeout after '' @ show_int ms @ ''ms'')"

section \<open>Repeated \<open>addField\<close>\<close>

text \<open>
  The specification compares \<open>addFields\<close> with calling \<open>addField\<close> once per
  element, in order; this is that sequence of calls, each element handing over
  its name, its value and its \<open>inline\<close> property (omitted when absent).
\<close>

fun repeated_addField :: "DiscordEmbedField list \<Rightarrow> DiscordEmbed \<Rightarrow> DiscordEmbed" where
  "repeated_addField [] b = b"
| "repeated_addField (f # fs) b =
     repeated_addField fs (addField (field_name f) (field_value f) (field_inline f) b)"

section \<open>Concrete surroundings used in the examples\<close>

definition demo_options :: "int option \<Rightarrow> DiscordWebhookOptions" where
  "demo_options t =
     \<lparr> opt_webhookUrl = ''https://discord.com/api/webhooks/123/abc'',
       opt_username = None, opt_avatarUrl = None, opt_timeout = t \<rparr>"

definition demo_client :: "int \<Rightarrow> DiscordWebhook" where
  "demo_client t =
     \<lparr> webhookUrl = ''https://discord.com/api/webhooks/123/abc'',
       username = None, avatarUrl = None, timeout = t \<rparr>"

definition demo_now :: string where
  "demo_now = ''2024-05-01T12:00:00.000Z''"

text \<open>A network that accepts every request with 204.\<close>

definition accepting_env :: env where
  "accepting_env =
     \<lparr> fetch = (\<lambda>_. Resolved \<lparr> status = 204, statusText = ''No Content'',
                                 text_result = Inr [] \<rparr>),
       now = demo_now \<rparr>"

text \<open>A network that answers 404 \<open>Not Found\<close> with the body \<open>Unknown Webhook\<close>.\<close>

definition not_found_env :: env where
  "not_found_env =
     \<lparr> fetch = (\<lambda>_. Resolved \<lparr> status = 404, statusText = ''Not Found'',
                                 text_result = Inr ''Unknown Webhook'' \<rparr>),
       now = demo_now \<rparr>"

text \<open>A network too slow for the timer: every request is aborted.\<close>

definition stalled_env :: env where
  "stalled_env =
     \<lparr> fetch = (\<lambda>_. Rejected (Error ''AbortError'' ''The user aborted a request.'')),
       now = demo_now \<rparr>"

text \<open>
  A network that answers 500 \<open>Internal Server Error\<close> and then breaks off
  while the body is read, so that \<open>response.text()\<close> throws.
\<close>

definition broken_body_env :: env where
  "broken_body_env =
     \<lparr> fetch = (\<lambda>_. Resolved \<lparr> status = 500, statusText = ''Internal Server Error'',
                                 text_result = Inl (Error ''FetchError'' ''Premature close'') \<rparr>),
       now = demo_now \<rparr>"

definition demo_field :: "string \<Rightarrow> string \<Rightarrow> bool option \<Rightarrow> DiscordEmbedField" where
  "demo_field n v i = \<lparr> field_name = n, field_value = v, field_inline = i \<rparr>"

section \<open>Decimal numerals\<close>

text \<open>\<open>show_nat\<close> writes a number in decimal: reading the digits back gives the number.\<close>

lemma digit_value: "d < 10 \<Longrightarrow> of_char (digit d) = (48::nat) + d"
proof -
  assume "d < 10"
  then have "d \<in> {0,1,2,3,4,5,6,7,8,9}" by auto
  then show ?thesis by (auto simp add: digit_def)
qed

lemma show_nat_decimal:
  "foldl (\<lambda>acc c. 10 * acc + (of_char c - 48)) 0 (show_nat n) = n"
proof (induction n rule: show_nat.induct)
  case (1 n)
  show ?case
  proof (cases "n < 10")
    case True
    then show ?thesis by (simp add: show_nat.simps [of n] digit_value)
  next
    case False
    with 1 show ?thesis
      by (simp add: show_nat.simps [of n] digit_value)
  qed
qed

section \<open>The builder\<close>

text \<open>
  A field that has an explicit \<open>inline\<close> is rebuilt by \<open>addField\<close> as it
  was, so repeated \<open>addField\<close> on an initialised list appends the sequence.
\<close>

lemma rebuild_field:
  "field_inline f = Some i \<Longrightarrow>
     \<lparr> field_name = field_name f, field_value = field_value f,
       field_inline = Some (inline_or_default (field_inline f)) \<rparr> = f"
  by (cases f) simp

lemma repeated_addField_initialised:
  "embed_fields b = Some l \<Longrightarrow> \<forall>f \<in> set fs. field_inline f \<noteq> None \<Longrightarrow>
     repeated_addField fs b = b\<lparr>embed_fields := Some (l @ fs)\<rparr>"
proof (induction fs arbitrary: b l)
  case Nil
  then show ?case by simp
next
  case (Cons f fs)
  from Cons.prems(2) obtain i where i: "field_inline f = Some i" by auto
  have step: "addField (field_name f) (field_value f) (field_inline f) b =
      b\<lparr>embed_fields := Some (l @ [f])\<rparr>"
    using Cons.prems(1) rebuild_field [OF i] by (simp add: addField_def)
  have "repeated_addField fs (b\<lparr>embed_fields := Some (l @ [f])\<rparr>) =
      b\<lparr>embed_fields := Some ((l @ [f]) @ fs)\<rparr>"
    using Cons.IH [of "b\<lparr>embed_fields := Some (l @ [f])\<rparr>" "l @ [f]"] Cons.prems(2)
    by simp
  with step show ?case by simp
qed

section \<open>The constructor\<close>

text \<open>
  Claim C1.  For every options record the constructor throws exactly when the
  endpoint is empty or does not begin with
  \<open>https://discord.com/api/webhooks/\<close>, and what it throws is the
  configuration error; for every endpoint that begins with the prefix it
  returns the client and throws nothing.
\<close>

theorem constructor_checks_prefix:
  "((\<exists>err. new_DiscordWebhook options = Inl err) =
      (opt_webhookUrl options = [] \<or>
       \<not> prefix ''https://discord.com/api/webhooks/'' (opt_webhookUrl options)))
   \<and> ((new_DiscordWebhook options = Inl ConfigurationError) =
      (opt_webhookUrl options = [] \<or>
       \<not> prefix ''https://discord.com/api/webhooks/'' (opt_webhookUrl options)))
   \<and> (prefix ''https://discord.com/api/webhooks/'' (opt_webhookUrl options) \<longrightarrow>
        new_DiscordWebhook options =
          Inr \<lparr> webhookUrl = opt_webhookUrl options, username = opt_username options,
                avatarUrl = opt_avatarUrl options,
                timeout = timeout_or_default (opt_timeout options) \<rparr>)"
  unfolding new_DiscordWebhook_def ConfigurationError_def WEBHOOK_PREFIX_def
  by auto

text \<open>
  The constructor at an accepted endpoint, with and without a timeout, at the
  empty endpoint and at an endpoint with the wrong scheme.
\<close>

theorem constructor_checks_prefix_witness:
  "prefix ''https://discord.com/api/webhooks/'' (opt_webhookUrl (demo_options None))
   \<and> new_DiscordWebhook (demo_options None) = Inr (demo_client 10000)
   \<and> new_DiscordWebhook (demo_options (Some 50)) = Inr (demo_client 50)
   \<and> new_DiscordWebhook ((demo_options None)\<lparr>opt_webhookUrl := []\<rparr>) = Inl ConfigurationError
   \<and> new_DiscordWebhook ((demo_options None)\<lparr>opt_webhookUrl := ''http://discord.com/api/webhooks/123/abc''\<rparr>)
       = Inl ConfigurationError"
  using constructor_checks_prefix [of "demo_options None"]
        constructor_checks_prefix [of "demo_options (Some 50)"]
        constructor_checks_prefix [of "(demo_options None)\<lparr>opt_webhookUrl := []\<rparr>"]
        constructor_checks_prefix [of "(demo_options None)\<lparr>opt_webhookUrl := ''http://discord.com/api/webhooks/123/abc''\<rparr>"]
  by (simp add: demo_options_def demo_client_def)

section \<open>Sending embeds\<close>

text \<open>
  Claim C2.  For every sequence of no embeds and every sequence of eleven or
  more, \<open>sendEmbeds\<close> throws a validation error and the list of requests
  handed to the network is what it was before the call: there is no network
  attempt.
\<close>

theorem sendEmbeds_rejects_without_dispatch:
  assumes "length es = 0 \<or> 11 \<le> length es"
  shows "\<exists>err. ValidationError err \<and> sendEmbeds e this es sent = (Inl err, sent)"
  using assms unfolding sendEmbeds_def ValidationError_def by auto

text \<open>\<open>sendEmbeds\<close> on the empty sequence and on eleven embeds.\<close>

theorem sendEmbeds_rejects_without_dispatch_witness:
  "length ([] :: DiscordEmbed list) = 0
   \<and> sendEmbeds accepting_env (demo_client 10000) [] [] =
       (Inl (new_Error ''At least one embed is required''), [])
   \<and> 11 \<le> length (replicate 11 new_EmbedBuilder)
   \<and> sendEmbeds accepting_env (demo_client 10000) (replicate 11 new_EmbedBuilder) [] =
       (Inl (new_Error ''Maximum 10 embeds allowed per message''), [])"
  using sendEmbeds_rejects_without_dispatch [of "[]" accepting_env "demo_client 10000" "[]"]
        sendEmbeds_rejects_without_dispatch
          [of "replicate 11 new_EmbedBuilder" accepting_env "demo_client 10000" "[]"]
  by (simp add: sendEmbeds_def)

text \<open>
  Claim C3.  For every sequence of one to ten embeds, \<open>sendEmbeds\<close> hands
  exactly one request to the network, and the \<open>embeds\<close> of its payload are
  the given sequence, unchanged and in the same order.
\<close>

theorem sendEmbeds_dispatches_once:
  assumes "1 \<le> length es" and "length es \<le> 10"
  shows "snd (sendEmbeds e this es sent) =
           sent @ [request_of this \<lparr> content = None, payload_username = username this,
                                      avatar_url = avatarUrl this, embeds = Some es \<rparr>]
       \<and> length (snd (sendEmbeds e this es sent)) = length sent + 1
       \<and> embeds (req_body (last (snd (sendEmbeds e this es sent)))) = Some es"
  using assms unfolding sendEmbeds_def execute_def request_of_def
  by (auto simp add: Let_def)

text \<open>\<open>sendEmbeds\<close> on two embeds.\<close>

theorem sendEmbeds_dispatches_once_witness:
  "1 \<le> length [setTitle ''one'' new_EmbedBuilder, setTitle ''two'' new_EmbedBuilder]
   \<and> length [setTitle ''one'' new_EmbedBuilder, setTitle ''two'' new_EmbedBuilder] \<le> 10
   \<and> map (\<lambda>r. embeds (req_body r))
        (snd (sendEmbeds accepting_env (demo_client 10000)
               [setTitle ''one'' new_EmbedBuilder, setTitle ''two'' new_EmbedBuilder] []))
      = [Some [setTitle ''one'' new_EmbedBuilder, setTitle ''two'' new_EmbedBuilder]]"
  using sendEmbeds_dispatches_once
          [of "[setTitle ''one'' new_EmbedBuilder, setTitle ''two'' new_EmbedBuilder]"
              accepting_env "demo_client 10000" "[]"]
  by (simp add: request_of_def)

section \<open>Status messages\<close>

text \<open>
  Claim C4.  For all arguments, \<open>sendStatus\<close> hands one request to the
  network; its payload has no \<open>content\<close> and exactly one embed.  The embed
  always has the title, the colour of the status and a timestamp; it has the
  description, the fields and the image exactly when the argument was given
  and is truthy (a non-empty string, a non-empty list), and otherwise lacks
  the property altogether.
\<close>

theorem sendStatus_payload:
  "\<exists>r embed.
     snd (sendStatus e this st t d fs imageUrl sent) = sent @ [r]
   \<and> content (req_body r) = None
   \<and> embeds (req_body r) = Some [embed]
   \<and> title embed = Some t
   \<and> color embed = Some (STATUS_COLORS st)
   \<and> timestamp embed = Some (now e)
   \<and> description embed = (if truthy d then d else None)
   \<and> embed_fields embed = (if fs = None \<or> fs = Some [] then None else fs)
   \<and> embed_image embed =
        (if truthy imageUrl then map_option (\<lambda>u. \<lparr>media_url = u\<rparr>) imageUrl else None)
   \<and> url embed = None \<and> footer embed = None \<and> thumbnail embed = None"
  unfolding sendStatus_def execute_def request_of_def status_embed_def new_EmbedBuilder_def
  by (cases d; cases fs; cases imageUrl) (simp_all add: Let_def)

text \<open>
  \<open>sendStatus("success", "OK", "all good")\<close>, and a call with an empty
  description, one field and an image.
\<close>

theorem sendStatus_payload_witness:
  "map req_body
     (snd (sendStatus accepting_env (demo_client 10000) success ''OK'' (Some ''all good'')
             None None [])) =
   [\<lparr> content = None, payload_username = None, avatar_url = None,
      embeds = Some [\<lparr> title = Some ''OK'', description = Some ''all good'', url = None,
                       timestamp = Some demo_now, color = Some 0x57F287, footer = None,
                       embed_image = None, thumbnail = None, embed_fields = None \<rparr>] \<rparr>]
   \<and> map req_body
     (snd (sendStatus accepting_env (demo_client 10000) error ''Down'' (Some [])
             (Some [demo_field ''Server'' ''web-01'' (Some True)]) (Some ''https://x/y.gif'') [])) =
   [\<lparr> content = None, payload_username = None, avatar_url = None,
      embeds = Some [\<lparr> title = Some ''Down'', description = None, url = None,
                       timestamp = Some demo_now, color = Some 0xED4245, footer = None,
                       embed_image = Some \<lparr>media_url = ''https://x/y.gif''\<rparr>,
                       thumbnail = None,
                       embed_fields = Some [demo_field ''Server'' ''web-01'' (Some True)] \<rparr>] \<rparr>]"
  using sendStatus_payload
          [of accepting_env "demo_client 10000" success "''OK''" "Some ''all good''" None None "[]"]
        sendStatus_payload
          [of accepting_env "demo_client 10000" error "''Down''" "Some []"
              "Some [demo_field ''Server'' ''web-01'' (Some True)]" "Some ''https://x/y.gif''" "[]"]
  by (simp add: sendStatus_def execute_def request_of_def status_embed_def new_EmbedBuilder_def
        demo_client_def accepting_env_def Let_def)

text \<open>
  Claim C10.  For every title, also the empty one, the embed that
  \<open>sendStatus\<close> dispatches has the title as given: with an empty title, an
  empty description, an empty field list and an empty image URL the embed has
  the title \<open>""\<close> and neither description nor fields nor image.
\<close>

theorem sendStatus_title_unconditional:
  "(\<exists>r embed. snd (sendStatus e this st t d fs imageUrl sent) = sent @ [r]
       \<and> embeds (req_body r) = Some [embed] \<and> title embed = Some t)
   \<and> (\<exists>r embed. snd (sendStatus e this st [] (Some []) (Some []) (Some []) sent) = sent @ [r]
       \<and> embeds (req_body r) = Some [embed] \<and> title embed = Some []
       \<and> description embed = None \<and> embed_fields embed = None \<and> embed_image embed = None)"
  unfolding sendStatus_def execute_def request_of_def status_embed_def new_EmbedBuilder_def
  by (cases d; cases fs; cases imageUrl) (simp_all add: Let_def)

text \<open>\<open>sendStatus("info", "")\<close>.\<close>

theorem sendStatus_title_unconditional_witness:
  "map (\<lambda>r. map_option (map title) (embeds (req_body r)))
     (snd (sendStatus accepting_env (demo_client 10000) info [] None None None []))
   = [Some [Some []]]"
  using sendStatus_title_unconditional
          [of accepting_env "demo_client 10000" info "[]" None None None "[]"]
  by (simp add: sendStatus_def execute_def request_of_def status_embed_def new_EmbedBuilder_def
        Let_def)

section \<open>Status colours\<close>

text \<open>
  Claim C5.  On every builder, \<open>setStatusColor\<close> followed by \<open>build\<close> gives
  the colour 0x57F287 for success, 0xFEE75C for warning, 0xED4245 for error
  and 0x5865F2 for info.
\<close>

theorem setStatusColor_constants:
  "color (build (setStatusColor success b)) = Some 0x57F287 \<and>
   color (build (setStatusColor warning b)) = Some 0xFEE75C \<and>
   color (build (setStatusColor error b)) = Some 0xED4245 \<and>
   color (build (setStatusColor info b)) = Some 0x5865F2"
  by (simp add: setStatusColor_def build_def)

section \<open>Errors of the dispatch\<close>

text \<open>
  Claim C6 says that every response with a status outside 200 to 299 makes the
  send throw the remote error with the status, the status text and the body
  text in its message.  The body is read inside the \<open>try\<close> block, so when
  \<open>response.text()\<close> throws, the \<open>catch\<close> block reports that failure
  instead: after a 500 whose body cannot be read, the message has neither the
  status nor the status text.
\<close>

theorem execute_remote_error_counterexample:
  "fetch broken_body_env (request_of (demo_client 10000)
       \<lparr>content = Some ''hello'', payload_username = None, avatar_url = None, embeds = None\<rparr>)
     = Resolved \<lparr> status = 500, statusText = ''Internal Server Error'',
                  text_result = Inl (Error ''FetchError'' ''Premature close'') \<rparr>
   \<and> 299 < (500 :: nat)
   \<and> fst (execute broken_body_env (demo_client 10000)
       \<lparr>content = Some ''hello'', payload_username = None, avatar_url = None, embeds = None\<rparr> [])
     = Inl (new_Error ''Failed to send webhook: Premature close'')
   \<and> \<not> sublist ''500'' ''Failed to send webhook: Premature close''
   \<and> \<not> sublist ''Internal Server Error'' ''Failed to send webhook: Premature close''"
proof -
  have outcome: "fst (execute broken_body_env (demo_client 10000)
       \<lparr>content = Some ''hello'', payload_username = None, avatar_url = None, embeds = None\<rparr> [])
     = Inl (new_Error ''Failed to send webhook: Premature close'')"
    by (simp add: execute_def broken_body_env_def ok_def new_Error_def Let_def)
  have no_code: "\<not> sublist ''500'' ''Failed to send webhook: Premature close''"
    by (simp add: sublist_Cons_right)
  have no_reason:
    "\<not> sublist ''Internal Server Error'' ''Failed to send webhook: Premature close''"
    by (simp add: sublist_Cons_right)
  show ?thesis
    using outcome no_code no_reason by (simp add: broken_body_env_def)
qed

text \<open>
  Claim C6, amended.  For every dispatch whose response has a status outside
  200 to 299 and whose body text \<open>response.text()\<close> delivers, the send throws
  the remote error, whose message contains the status in decimal, the status
  text and the body text.
\<close>

theorem execute_remote_error:
  assumes "fetch e (request_of this payload) = Resolved r"
      and "status r < 200 \<or> 299 < status r"
      and "text_result r = Inr body"
  shows "fst (execute e this payload sent) = Inl (RemoteError (status r) (statusText r) body)
       \<and> sublist (show_nat (status r)) (message (RemoteError (status r) (statusText r) body))
       \<and> sublist (statusText r) (message (RemoteError (status r) (statusText r) body))
       \<and> sublist body (message (RemoteError (status r) (statusText r) body))"
proof -
  have not_ok: "\<not> ok r"
    using assms(2) by (auto simp add: ok_def)
  have "try_block (fetch e (request_of this payload)) =
          Inl (new_Error (''Discord API error: '' @ show_nat (status r) @ '' '' @
                 statusText r @ '' - '' @ body))"
    using assms(1,3) not_ok by simp
  then have result: "fst (execute e this payload sent) =
      Inl (RemoteError (status r) (statusText r) body)"
    by (simp add: execute_def RemoteError_def new_Error_def Let_def)
  let ?head = "''Failed to send webhook: Discord API error: ''"
  have msg: "message (RemoteError (status r) (statusText r) body) =
      ?head @ show_nat (status r) @ '' '' @ statusText r @ '' - '' @ body"
    by (simp add: RemoteError_def new_Error_def)
  have code: "sublist (show_nat (status r)) (message (RemoteError (status r) (statusText r) body))"
    unfolding msg by (rule sublist_appendI)
  have "sublist (statusText r)
          ((?head @ show_nat (status r) @ '' '') @ statusText r @ ('' - '' @ body))"
    by (rule sublist_appendI)
  then have reason: "sublist (statusText r) (message (RemoteError (status r) (statusText r) body))"
    unfolding msg by simp
  have "sublist body ((?head @ show_nat (status r) @ '' '' @ statusText r @ '' - '') @ body @ [])"
    by (rule sublist_appendI)
  then have tail: "sublist body (message (RemoteError (status r) (statusText r) body))"
    unfolding msg by simp
  from result code reason tail show ?thesis by blast
qed

text \<open>The answer 404 \<open>Not Found\<close> with the body \<open>Unknown Webhook\<close>.\<close>

theorem execute_remote_error_witness:
  "fetch not_found_env (request_of (demo_client 10000)
       \<lparr>content = Some ''hello'', payload_username = None, avatar_url = None, embeds = None\<rparr>)
     = Resolved \<lparr> status = 404, statusText = ''Not Found'',
                  text_result = Inr ''Unknown Webhook'' \<rparr>
   \<and> 299 < (404 :: nat)
   \<and> fst (execute not_found_env (demo_client 10000)
       \<lparr>content = Some ''hello'', payload_username = None, avatar_url = None, embeds = None\<rparr> [])
     = Inl (new_Error
         ''Failed to send webhook: Discord API error: 404 Not Found - Unknown Webhook'')
   \<and> sublist ''404''
        ''Failed to send webhook: Discord API error: 404 Not Found - Unknown Webhook''
   \<and> sublist ''Not Found''
        ''Failed to send webhook: Discord API error: 404 Not Found - Unknown Webhook''
   \<and> sublist ''Unknown Webhook''
        ''Failed to send webhook: Discord API error: 404 Not Found - Unknown Webhook''"
proof -
  have fetched: "fetch not_found_env (request_of (demo_client 10000)
       \<lparr>content = Some ''hello'', payload_username = None, avatar_url = None, embeds = None\<rparr>)
     = Resolved \<lparr> status = 404, statusText = ''Not Found'',
                  text_result = Inr ''Unknown Webhook'' \<rparr>"
    by (simp add: not_found_env_def)
  have digits: "show_nat 404 = ''404''"
    by (simp add: show_nat.simps digit_def)
  show ?thesis
    using execute_remote_error [OF fetched, of "''Unknown Webhook''" "[]"] fetched digits
    by (simp add: RemoteError_def new_Error_def)
qed

text \<open>
  Claim C7.  The timer that aborts the request runs for the client's
  configured timeout, and for every dispatch whose request is aborted the
  send throws the timeout error, whose message contains that timeout in
  decimal.
\<close>

theorem execute_timeout:
  assumes "fetch e (request_of this payload) = Rejected (Error ''AbortError'' m)"
  shows "abort_after (request_of this payload) = timeout this
       \<and> fst (execute e this payload sent) = Inl (TimeoutError (timeout this))
       \<and> sublist (show_int (timeout this)) (message (TimeoutError (timeout this)))"
proof -
  have timer: "abort_after (request_of this payload) = timeout this"
    by (simp add: request_of_def)
  have result: "fst (execute e this payload sent) = Inl (TimeoutError (timeout this))"
    using assms by (simp add: execute_def TimeoutError_def Let_def)
  have "message (TimeoutError (timeout this)) =
      ''Failed to send webhook: Request timeout after '' @ show_int (timeout this) @ ''ms''"
    by (simp add: TimeoutError_def new_Error_def)
  then have shown: "sublist (show_int (timeout this)) (message (TimeoutError (timeout this)))"
    by (simp only: sublist_appendI)
  from timer result shown show ?thesis by blast
qed

text \<open>A client configured with a timeout of 50 ms whose request is aborted.\<close>

theorem execute_timeout_witness:
  "new_DiscordWebhook (demo_options (Some 50)) = Inr (demo_client 50)
   \<and> fetch stalled_env (request_of (demo_client 50)
       \<lparr>content = Some ''hello'', payload_username = None, avatar_url = None, embeds = None\<rparr>)
     = Rejected (Error ''AbortError'' ''The user aborted a request.'')
   \<and> fst (execute stalled_env (demo_client 50)
       \<lparr>content = Some ''hello'', payload_username = None, avatar_url = None, embeds = None\<rparr> [])
     = Inl (new_Error ''Failed to send webhook: Request timeout after 50ms'')
   \<and> sublist ''50'' ''Failed to send webhook: Request timeout after 50ms''"
proof -
  have fetched: "fetch stalled_env (request_of (demo_client 50)
       \<lparr>content = Some ''hello'', payload_username = None, avatar_url = None, embeds = None\<rparr>)
     = Rejected (Error ''AbortError'' ''The user aborted a request.'')"
    by (simp add: stalled_env_def)
  have digits: "show_int 50 = ''50''"
    by (simp add: show_int_def show_nat.simps digit_def)
  have built: "new_DiscordWebhook (demo_options (Some 50)) = Inr (demo_client 50)"
    by (simp add: new_DiscordWebhook_def demo_options_def demo_client_def WEBHOOK_PREFIX_def)
  have t: "timeout (demo_client 50) = 50"
    by (simp add: demo_client_def)
  show ?thesis
    using execute_timeout [OF fetched, of "[]"] fetched digits built t
    by (simp add: TimeoutError_def new_Error_def)
qed

section \<open>Adding fields\<close>

text \<open>
  Claim C8.  \<open>addField\<close> puts one field at the end of the builder's field
  list, starting the list when there is none, with \<open>inline\<close> false when the
  argument is omitted.  After \<open>addField("a","1")\<close> and \<open>addField("b","2")\<close>
  the built embed's fields are the two fields in that order, both with
  \<open>inline\<close> false, and a name may occur twice.
\<close>

theorem addField_appends_in_order:
  "(embed_fields b = None \<longrightarrow>
      embed_fields (addField n v i b) =
        Some [\<lparr> field_name = n, field_value = v,
                field_inline = Some (case i of None \<Rightarrow> False | Some x \<Rightarrow> x) \<rparr>])
   \<and> (\<forall>l. embed_fields b = Some l \<longrightarrow>
      embed_fields (addField n v i b) =
        Some (l @ [\<lparr> field_name = n, field_value = v,
                     field_inline = Some (case i of None \<Rightarrow> False | Some x \<Rightarrow> x) \<rparr>]))
   \<and> embed_fields (build (addField ''b'' ''2'' None (addField ''a'' ''1'' None new_EmbedBuilder))) =
        Some [\<lparr> field_name = ''a'', field_value = ''1'', field_inline = Some False \<rparr>,
              \<lparr> field_name = ''b'', field_value = ''2'', field_inline = Some False \<rparr>]
   \<and> embed_fields (build (addField ''a'' ''2'' None (addField ''a'' ''1'' None new_EmbedBuilder))) =
        Some [\<lparr> field_name = ''a'', field_value = ''1'', field_inline = Some False \<rparr>,
              \<lparr> field_name = ''a'', field_value = ''2'', field_inline = Some False \<rparr>]"
  by (cases i) (simp_all add: addField_def build_def new_EmbedBuilder_def)

text \<open>\<open>addField\<close> on a fresh builder, then on the builder that has a field.\<close>

theorem addField_appends_in_order_witness:
  "embed_fields new_EmbedBuilder = None
   \<and> embed_fields (addField ''a'' ''1'' None new_EmbedBuilder) =
        Some [demo_field ''a'' ''1'' (Some False)]
   \<and> embed_fields (addField ''b'' ''2'' (Some True) (addField ''a'' ''1'' None new_EmbedBuilder)) =
        Some [demo_field ''a'' ''1'' (Some False), demo_field ''b'' ''2'' (Some True)]"
  using addField_appends_in_order [of new_EmbedBuilder "''a''" "''1''" None]
        addField_appends_in_order
          [of "addField ''a'' ''1'' None new_EmbedBuilder" "''b''" "''2''" "Some True"]
  by (simp add: new_EmbedBuilder_def demo_field_def)

text \<open>
  Claim C9 says that \<open>addFields\<close> always leaves the builder as one \<open>addField\<close>
  per element would.  On a fresh builder it does not: with the empty sequence
  \<open>addFields\<close> starts an empty field list where no call of \<open>addField\<close>
  leaves the list absent, and an element without \<open>inline\<close> is stored as it
  is where \<open>addField\<close> stores it with \<open>inline\<close> false.
\<close>

theorem addFields_repeated_addField_counterexample:
  "embed_fields (build (addFields [] new_EmbedBuilder)) = Some []
   \<and> embed_fields (build (repeated_addField [] new_EmbedBuilder)) = None
   \<and> addFields [] new_EmbedBuilder \<noteq> repeated_addField [] new_EmbedBuilder
   \<and> embed_fields (build (addFields [demo_field ''a'' ''1'' None] new_EmbedBuilder)) =
       Some [\<lparr> field_name = ''a'', field_value = ''1'', field_inline = None \<rparr>]
   \<and> embed_fields (build (repeated_addField [demo_field ''a'' ''1'' None] new_EmbedBuilder)) =
       Some [\<lparr> field_name = ''a'', field_value = ''1'', field_inline = Some False \<rparr>]
   \<and> addFields [demo_field ''a'' ''1'' None] new_EmbedBuilder \<noteq>
       repeated_addField [demo_field ''a'' ''1'' None] new_EmbedBuilder"
  by (simp add: addFields_def addField_def build_def new_EmbedBuilder_def demo_field_def)

text \<open>
  Claim C9, amended.  For every builder state and every sequence of fields
  that each carry an explicit \<open>inline\<close>, where the sequence is non-empty or
  the builder already has a field list, \<open>addFields\<close> leaves the builder in
  the same state as one \<open>addField\<close> per element, in order.
\<close>

theorem addFields_eq_repeated_addField:
  assumes "fs \<noteq> [] \<or> embed_fields b \<noteq> None"
      and "\<forall>f \<in> set fs. field_inline f \<noteq> None"
  shows "addFields fs b = repeated_addField fs b"
proof (cases "embed_fields b")
  case (Some l)
  then show ?thesis
    using repeated_addField_initialised [OF Some assms(2)] by (simp add: addFields_def)
next
  case None
  with assms(1) obtain f rest where fs: "fs = f # rest" by (cases fs) auto
  from assms(2) fs obtain i where i: "field_inline f = Some i" by auto
  let ?b1 = "addField (field_name f) (field_value f) (field_inline f) b"
  have first: "?b1 = b\<lparr>embed_fields := Some [f]\<rparr>"
    using None rebuild_field [OF i] by (simp add: addField_def)
  have rest: "\<forall>g \<in> set rest. field_inline g \<noteq> None"
    using assms(2) fs by simp
  have "repeated_addField rest (b\<lparr>embed_fields := Some [f]\<rparr>) =
      b\<lparr>embed_fields := Some ([f] @ rest)\<rparr>"
    using repeated_addField_initialised [of "b\<lparr>embed_fields := Some [f]\<rparr>" "[f]" rest] rest
    by simp
  with first fs None show ?thesis by (simp add: addFields_def)
qed

text \<open>Two fields with explicit \<open>inline\<close> on a fresh builder.\<close>

theorem addFields_eq_repeated_addField_witness:
  "[demo_field ''a'' ''1'' (Some False), demo_field ''b'' ''2'' (Some True)] \<noteq> []
   \<and> field_inline (demo_field ''a'' ''1'' (Some False)) = Some False
   \<and> field_inline (demo_field ''b'' ''2'' (Some True)) = Some True
   \<and> addFields [demo_field ''a'' ''1'' (Some False), demo_field ''b'' ''2'' (Some True)]
       new_EmbedBuilder =
     repeated_addField [demo_field ''a'' ''1'' (Some False), demo_field ''b'' ''2'' (Some True)]
       new_EmbedBuilder
   \<and> embed_fields (repeated_addField
        [demo_field ''a'' ''1'' (Some False), demo_field ''b'' ''2'' (Some True)]
        new_EmbedBuilder) =
     Some [demo_field ''a'' ''1'' (Some False), demo_field ''b'' ''2'' (Some True)]"
proof -
  let ?fs = "[demo_field ''a'' ''1'' (Some False), demo_field ''b'' ''2'' (Some True)]"
  have nonempty: "?fs \<noteq> [] \<or> embed_fields new_EmbedBuilder \<noteq> None"
    by simp
  have explicit: "\<forall>f \<in> set ?fs. field_inline f \<noteq> None"
    by (auto simp add: demo_field_def)
  have same: "addFields ?fs new_EmbedBuilder = repeated_addField ?fs new_EmbedBuilder"
    using addFields_eq_repeated_addField [OF nonempty explicit] .
  have "embed_fields (addFields ?fs new_EmbedBuilder) = Some ?fs"
    by (simp add: addFields_def new_EmbedBuilder_def)
  then have shape: "embed_fields (repeated_addField ?fs new_EmbedBuilder) = Some ?fs"
    unfolding same .
  have first: "field_inline (demo_field ''a'' ''1'' (Some False)) = Some False"
    and second: "field_inline (demo_field ''b'' ''2'' (Some True)) = Some True"
    and filled: "?fs \<noteq> []"
    by (simp_all add: demo_field_def)
  from filled first second same shape show ?thesis
    by blast
qed

end
